theory Spec2Isabelle
  imports Complex_Main
begin

section \<open>The LE910CX modem driver (le910cx\_conn.py)\<close>

text \<open>
  The theory embeds \<^verbatim>\<open>LE910CXConn\<close> of
  \<^verbatim>\<open>src/salt/base/ext/_utils/le910cx_conn.py\<close>: the command executor
  \<^verbatim>\<open>execute\<close>, the get-or-set accessors, and the response decoders.

  Python exceptions are values of \<open>exn\<close>; a method that may raise returns
  \<open>exn + 'a\<close> together with the connection it leaves behind. Exception messages are
  not modelled, only the exception class.
\<close>

subsection \<open>Exceptions and the result of one read\<close>

datatype exn =
    CommandExecutionException
  | InvalidResponseException
  | NoFixException
  | ValueError
  | TypeError
  | AttributeError
  | KeyError
  | IndexError
  | PyException
  | TransportException string

text \<open>
  The dictionary \<^verbatim>\<open>res\<close> returned by \<^verbatim>\<open>read_until\<close>. The driver
  reads two keys of it: \<^verbatim>\<open>"error"\<close> (only its presence, and its text for the
  log) and \<^verbatim>\<open>"data"\<close>, which the decoders use either as one string
  (\<^verbatim>\<open>re.match(res.get("data", ""))\<close>) or as a list of lines
  (\<^verbatim>\<open>res["data"][i]\<close> in \<^verbatim>\<open>sms_list\<close>).
\<close>

datatype data_val = Line string | Lines "string list"

record res =
  error :: "string option"
  data :: "data_val option"

subsection \<open>The serial transport, as a parameter\<close>

text \<open>
  \<^verbatim>\<open>SerialConn\<close> (module \<^verbatim>\<open>serial_conn\<close>) is not among the sources. Its
  three methods that the driver calls are parameters of the model: any functions of these
  types, over any device state \<open>'t\<close>, each free to raise. The model keeps a trace of
  every call the driver makes on the transport (and of \<^verbatim>\<open>time.sleep\<close>), so that
  what was sent, and in which order, can be stated.
\<close>

record 't serial_ops =
  write_line :: "string \<Rightarrow> 't \<Rightarrow> exn option \<times> 't"
  read_until :: "string \<Rightarrow> rat option \<Rightarrow> 't \<Rightarrow> (exn + res) \<times> 't"
  close :: "'t \<Rightarrow> exn option \<times> 't"

datatype event =
    WriteLine string
  | ReadUntil string "rat option"
  | Close
  | Sleep rat

record 't conn =
  trace :: "event list"
  dev :: "'t"

definition conn_write_line :: "'t serial_ops \<Rightarrow> string \<Rightarrow> 't conn \<Rightarrow> exn option \<times> 't conn" where
  "conn_write_line ops line c =
     (case write_line ops line (dev c) of
        (e, d) \<Rightarrow> (e, \<lparr>trace = trace c @ [WriteLine line], dev = d\<rparr>))"

definition conn_read_until ::
  "'t serial_ops \<Rightarrow> string \<Rightarrow> rat option \<Rightarrow> 't conn \<Rightarrow> (exn + res) \<times> 't conn" where
  "conn_read_until ops ready_word timeout c =
     (case read_until ops ready_word timeout (dev c) of
        (r, d) \<Rightarrow> (r, \<lparr>trace = trace c @ [ReadUntil ready_word timeout], dev = d\<rparr>))"

definition conn_close :: "'t serial_ops \<Rightarrow> 't conn \<Rightarrow> exn option \<times> 't conn" where
  "conn_close ops c =
     (case close ops (dev c) of
        (e, d) \<Rightarrow> (e, \<lparr>trace = trace c @ [Close], dev = d\<rparr>))"

text \<open>
  \<^verbatim>\<open>time.sleep(d)\<close> raises for a negative delay (\<^verbatim>\<open>ValueError\<close>; under
  Python 2 the class is \<^verbatim>\<open>IOError\<close>, which the model does not tell apart).
\<close>

definition conn_sleep :: "rat \<Rightarrow> 't conn \<Rightarrow> exn option \<times> 't conn" where
  "conn_sleep d c =
     (if d < 0 then Some ValueError else None, c\<lparr>trace := trace c @ [Sleep d]\<rparr>)"

subsection \<open>execute\<close>

text \<open>
  \<^verbatim>\<open>"error" in res\<close>. In \<^verbatim>\<open>execute\<close> the variable \<^verbatim>\<open>res\<close> starts
  as \<^verbatim>\<open>None\<close>, so the model carries a \<open>res option\<close>; the membership test on
  \<^verbatim>\<open>None\<close> raises \<^verbatim>\<open>TypeError\<close>.
\<close>

definition has_error :: "res \<Rightarrow> bool" where
  "has_error r = (error r \<noteq> None)"

definition error_in :: "res option \<Rightarrow> exn + bool" where
  "error_in ro = (case ro of None \<Rightarrow> Inl TypeError | Some r \<Rightarrow> Inr (has_error r))"


text \<open>
  The loop \<^verbatim>\<open>for ready_word in ready_words\<close> (lines 128 to 133): each round
  overwrites \<^verbatim>\<open>res\<close> with the result of its read and leaves the loop when that
  result holds an error. An exception of \<^verbatim>\<open>read_until\<close> leaves it too.
\<close>

fun scan ::
  "'t serial_ops \<Rightarrow> rat option \<Rightarrow> string list \<Rightarrow> res option \<Rightarrow> 't conn
     \<Rightarrow> (exn + res option) \<times> 't conn" where
  "scan ops timeout [] ro c = (Inr ro, c)"
| "scan ops timeout (ready_word # ready_words) ro c =
     (case conn_read_until ops ready_word timeout c of
        (Inl e, c') \<Rightarrow> (Inl e, c')
      | (Inr r, c') \<Rightarrow>
          if has_error r then (Inr (Some r), c')
          else scan ops timeout ready_words (Some r) c')"

text \<open>The body of the \<^verbatim>\<open>try\<close> block: write the command, then scan.\<close>

definition exchange ::
  "'t serial_ops \<Rightarrow> string \<Rightarrow> string list \<Rightarrow> rat option \<Rightarrow> 't conn
     \<Rightarrow> (exn + res option) \<times> 't conn" where
  "exchange ops cmd ready_words timeout c =
     (case conn_write_line ops cmd c of
        (Some e, c') \<Rightarrow> (Inl e, c')
      | (None, c') \<Rightarrow> scan ops timeout ready_words None c')"

text \<open>
  What follows the \<^verbatim>\<open>try\<close> body: the \<^verbatim>\<open>finally\<close> clause closes the
  connection unless \<^verbatim>\<open>keep_conn\<close> (an exception of \<^verbatim>\<open>close\<close> replaces
  the pending one); an exception of the body then propagates; otherwise the cooldown
  sleep, which may raise, and the check \<^verbatim>\<open>raise_on_error and "error" in res\<close>, whose
  \<^verbatim>\<open>and\<close> does not evaluate the membership test when \<^verbatim>\<open>raise_on_error\<close>
  is false.
\<close>

definition finish ::
  "'t serial_ops \<Rightarrow> bool \<Rightarrow> rat option \<Rightarrow> bool \<Rightarrow> (exn + res option) \<times> 't conn
     \<Rightarrow> (exn + res option) \<times> 't conn" where
  "finish ops keep_conn cooldown_delay raise_on_error bc =
     (case bc of (body, c1) \<Rightarrow>
        (case (if \<not> keep_conn then conn_close ops c1 else (None, c1)) of
           (Some e, c2) \<Rightarrow> (Inl e, c2)
         | (None, c2) \<Rightarrow>
             (case body of
                Inl e \<Rightarrow> (Inl e, c2)
              | Inr ro \<Rightarrow>
                  (case (case cooldown_delay of
                           None \<Rightarrow> (None, c2)
                         | Some d \<Rightarrow> conn_sleep d c2) of
                     (Some e, c3) \<Rightarrow> (Inl e, c3)
                   | (None, c3) \<Rightarrow>
                       if raise_on_error then
                         (case error_in ro of
                            Inl e \<Rightarrow> (Inl e, c3)
                          | Inr True \<Rightarrow> (Inl CommandExecutionException, c3)
                          | Inr False \<Rightarrow> (Inr ro, c3))
                       else (Inr ro, c3)))))"

definition execute ::
  "'t serial_ops \<Rightarrow> string \<Rightarrow> string list \<Rightarrow> bool \<Rightarrow> rat option \<Rightarrow> rat option \<Rightarrow> bool
     \<Rightarrow> 't conn \<Rightarrow> (exn + res option) \<times> 't conn" where
  "execute ops cmd ready_words keep_conn cooldown_delay timeout raise_on_error c =
     finish ops keep_conn cooldown_delay raise_on_error
       (exchange ops cmd ready_words timeout c)"

text \<open>\<^verbatim>\<open>self.execute(cmd)\<close> with every optional argument at its default.\<close>

definition execute_default ::
  "'t serial_ops \<Rightarrow> string \<Rightarrow> 't conn \<Rightarrow> (exn + res option) \<times> 't conn" where
  "execute_default ops cmd c = execute ops cmd [''OK''] True None None True c"

subsection \<open>A line transport for the examples\<close>

text \<open>
  \<^verbatim>\<open>error_regex = re.compile("ERROR|\+(?P<type>.+) ERROR: (?P<reason>.+)")\<close>
  (line 14), matched at the start of a line: either the line starts with
  \<^verbatim>\<open>ERROR\<close> (no group set), or it is \<^verbatim>\<open>+\<close>, a non-empty type, the text
  \<^verbatim>\<open> ERROR: \<close> and a non-empty reason. Both groups are greedy, so the type ends
  at the last place where the rest can still match; the dot does not match a newline, so
  the whole match lies before the first newline of the text.
\<close>

fun starts_with :: "string \<Rightarrow> string \<Rightarrow> bool" where
  "starts_with [] s = True"
| "starts_with (p # ps) [] = False"
| "starts_with (p # ps) (x # xs) = (p = x \<and> starts_with ps xs)"

fun last_split :: "string \<Rightarrow> string \<Rightarrow> (string \<times> string) option" where
  "last_split pre [] = None"
| "last_split pre (x # xs) =
     (case last_split (pre @ [x]) xs of
        Some r \<Rightarrow> Some r
      | None \<Rightarrow>
          if pre \<noteq> [] \<and> starts_with '' ERROR: '' (x # xs) \<and> 8 < length (x # xs)
          then Some (pre, drop 8 (x # xs)) else None)"

definition error_regex :: "string \<Rightarrow> (string option \<times> string option) option" where
  "error_regex s =
     (if starts_with ''ERROR'' s then Some (None, None)
      else (case s of
              [] \<Rightarrow> None
            | x # xs \<Rightarrow>
                if x = CHR ''+'' then
                  (case last_split [] (takeWhile (\<lambda>y. y \<noteq> CHR 0x0A) xs) of
                     None \<Rightarrow> None
                   | Some (t, r) \<Rightarrow> Some (Some t, Some r))
                else None))"

text \<open>
  Modelled from the spec: the Line Transport of section 6 (\<^verbatim>\<open>SerialConn\<close>, module
  \<^verbatim>\<open>serial_conn\<close>, is not among the sources). The device is the list of lines the
  modem will send. \<open>stub_read_until\<close> reads lines until one is the ready word or
  matches the error pattern; the lines before a ready word are the data (one line as a
  string, several as a list); an error sets \<open>error\<close> to the type, or to
  \<^verbatim>\<open>generic\<close> for a bare \<^verbatim>\<open>ERROR\<close>; running out of lines is the timeout.
  Writing and closing always succeed. It serves as the concrete transport of the examples
  only: every general theorem below holds for all \<open>serial_ops\<close>.
\<close>

definition data_of_lines :: "string list \<Rightarrow> data_val option" where
  "data_of_lines ls =
     (case ls of [] \<Rightarrow> None | [l] \<Rightarrow> Some (Line l) | _ \<Rightarrow> Some (Lines ls))"

fun stub_read_lines :: "string \<Rightarrow> string list \<Rightarrow> string list \<Rightarrow> (exn + res) \<times> string list" where
  "stub_read_lines ready_word seen [] = (Inl (TransportException ''timeout''), [])"
| "stub_read_lines ready_word seen (l # ls) =
     (if l = ready_word then (Inr \<lparr>error = None, data = data_of_lines seen\<rparr>, ls)
      else (case error_regex l of
              Some (t, r) \<Rightarrow>
                (Inr \<lparr>error = Some (case t of None \<Rightarrow> ''generic'' | Some k \<Rightarrow> k), data = None\<rparr>, ls)
            | None \<Rightarrow> stub_read_lines ready_word (seen @ [l]) ls))"

definition stub :: "(string list) serial_ops" where
  "stub = \<lparr>write_line = (\<lambda>line d. (None, d)),
           read_until = (\<lambda>ready_word timeout d. stub_read_lines ready_word [] d),
           close = (\<lambda>d. (None, d))\<rparr>"

definition modem :: "string list \<Rightarrow> (string list) conn" where
  "modem ls = \<lparr>trace = [], dev = ls\<rparr>"

subsection \<open>Sequencing calls that may raise\<close>

text \<open>
  A method body is a sequence of calls on the connection, each of which may raise; the
  first exception ends the sequence. \<open>bind\<close> is that sequencing, \<open>ok\<close> a value,
  \<open>throw\<close> a \<^verbatim>\<open>raise\<close>, \<open>lift\<close> a computation that does not touch the
  connection.
\<close>

definition bind ::
  "('s \<Rightarrow> (exn + 'a) \<times> 's) \<Rightarrow> ('a \<Rightarrow> 's \<Rightarrow> (exn + 'b) \<times> 's) \<Rightarrow> 's \<Rightarrow> (exn + 'b) \<times> 's" where
  "bind m f s = (case m s of (Inl e, s') \<Rightarrow> (Inl e, s') | (Inr x, s') \<Rightarrow> f x s')"

definition ok :: "'a \<Rightarrow> 's \<Rightarrow> (exn + 'a) \<times> 's" where
  "ok x s = (Inr x, s)"

definition throw :: "exn \<Rightarrow> 's \<Rightarrow> (exn + 'a) \<times> 's" where
  "throw e s = (Inl e, s)"

definition lift :: "exn + 'a \<Rightarrow> 's \<Rightarrow> (exn + 'a) \<times> 's" where
  "lift r s = (r, s)"

definition bindE :: "exn + 'a \<Rightarrow> ('a \<Rightarrow> exn + 'b) \<Rightarrow> exn + 'b" where
  "bindE r f = (case r of Inl e \<Rightarrow> Inl e | Inr x \<Rightarrow> f x)"

subsection \<open>Python strings and integers\<close>

definition is_digit :: "char \<Rightarrow> bool" where
  "is_digit x = (x \<in> set ''0123456789'')"

definition is_space :: "char \<Rightarrow> bool" where
  "is_space x = (x \<in> set [CHR '' '', CHR 0x09, CHR 0x0A, CHR 0x0B, CHR 0x0C, CHR 0x0D])"

definition digit_val :: "char \<Rightarrow> nat" where
  "digit_val x = of_char x - 48"

definition digits_val :: "string \<Rightarrow> nat" where
  "digits_val s = foldl (\<lambda>n x. 10 * n + digit_val x) 0 s"

definition strip :: "string \<Rightarrow> string" where
  "strip s = rev (dropWhile is_space (rev (dropWhile is_space s)))"

text \<open>
  \<^verbatim>\<open>int(s)\<close> on a byte string: surrounding whitespace is dropped, one sign is
  allowed, and what is left must be decimal digits, at least one;
  \<^verbatim>\<open>int(None)\<close> is a \<^verbatim>\<open>TypeError\<close>.
\<close>

definition py_int :: "string \<Rightarrow> exn + int" where
  "py_int s =
     (let t = strip s;
          neg = (case t of [] \<Rightarrow> False | x # _ \<Rightarrow> x = CHR ''-'');
          u = (case t of [] \<Rightarrow> [] | x # r \<Rightarrow> if x = CHR ''-'' \<or> x = CHR ''+'' then r else t)
      in if u \<noteq> [] \<and> list_all is_digit u
         then Inr (if neg then - int (digits_val u) else int (digits_val u))
         else Inl ValueError)"

definition py_int_opt :: "string option \<Rightarrow> exn + int" where
  "py_int_opt g = (case g of None \<Rightarrow> Inl TypeError | Some s \<Rightarrow> py_int s)"

text \<open>\<^verbatim>\<open>"{:d}".format(n)\<close>: the decimal digits, after \<^verbatim>\<open>-\<close> when negative.\<close>

definition digit_char :: "nat \<Rightarrow> char" where
  "digit_char n = ''0123456789'' ! n"

fun dec :: "nat \<Rightarrow> string" where
  "dec n = (if n < 10 then [digit_char n] else dec (n div 10) @ [digit_char (n mod 10)])"

definition fmt_d :: "int \<Rightarrow> string" where
  "fmt_d k = (if k < 0 then CHR ''-'' # dec (nat (- k)) else dec (nat k))"

definition fmt_bool :: "bool \<Rightarrow> string" where
  "fmt_bool b = fmt_d (if b then 1 else 0)"

text \<open>\<^verbatim>\<open>s.upper()\<close> on ASCII text.\<close>

definition upper_char :: "char \<Rightarrow> char" where
  "upper_char x =
     (case map_of (zip ''abcdefghijklmnopqrstuvwxyz'' ''ABCDEFGHIJKLMNOPQRSTUVWXYZ'') x of
        None \<Rightarrow> x
      | Some y \<Rightarrow> y)"

definition upper :: "string \<Rightarrow> string" where
  "upper s = map upper_char s"

subsection \<open>Dictionaries of the module\<close>

definition SMS_FORMAT_MODES :: "(int \<times> string) list" where
  "SMS_FORMAT_MODES = [(0, ''PUD''), (1, ''TXT'')]"

definition NMEA_MODE_PORT_LOCK :: int where
  "NMEA_MODE_PORT_LOCK = 3"

definition NMEA_MODE_MAP :: "(int \<times> string) list" where
  "NMEA_MODE_MAP =
     [(0, ''disabled''), (1, ''first_format''), (2, ''second_format''), (3, ''port_lock'')]"

definition ME_ERROR_MODE_MAP :: "(int \<times> string) list" where
  "ME_ERROR_MODE_MAP = [(0, ''disabled''), (1, ''numeric''), (2, ''verbose'')]"

definition GNSS_LOCATION_FIX_MAP :: "(int \<times> string) list" where
  "GNSS_LOCATION_FIX_MAP = [(0, ''invalid_fix''), (1, ''no_fix''), (2, ''2D''), (3, ''3D'')]"

text \<open>\<^verbatim>\<open>d.values()\<close> and \<^verbatim>\<open>d[k]\<close>, which raises \<^verbatim>\<open>KeyError\<close>.\<close>

definition dict_values :: "(int \<times> string) list \<Rightarrow> string list" where
  "dict_values d = map snd d"

definition dict_item :: "(int \<times> string) list \<Rightarrow> int \<Rightarrow> exn + string" where
  "dict_item d k = (case map_of d k of None \<Rightarrow> Inl KeyError | Some v \<Rightarrow> Inr v)"

text \<open>
  Modelled from the spec: \<^verbatim>\<open>common_util.dict_key_by_value\<close> is not among the
  sources. Section 4.3 has the accessors write the code of the validated value, so it is
  taken to return the key stored with the value. The driver calls it only after checking
  that the value is one of the dictionary's; for a value that is none of them the model
  raises \<^verbatim>\<open>ValueError\<close>.
\<close>

definition dict_key_by_value :: "(int \<times> string) list \<Rightarrow> string \<Rightarrow> exn + int" where
  "dict_key_by_value d v =
     (case find (\<lambda>kv. snd kv = v) d of None \<Rightarrow> Inl ValueError | Some kv \<Rightarrow> Inr (fst kv))"

subsection \<open>Matching a response\<close>

text \<open>
  \<^verbatim>\<open>res.get("data", "")\<close>, and \<^verbatim>\<open>pattern.match(...)\<close> on it, which raises
  \<^verbatim>\<open>TypeError\<close> when the data is a list of lines and not a string. A match is the
  list (or record) of its groups, \<open>None\<close> is Python's \<^verbatim>\<open>None\<close>.
\<close>

definition get_data :: "res option \<Rightarrow> exn + data_val" where
  "get_data ro =
     (case ro of
        None \<Rightarrow> Inl AttributeError
      | Some r \<Rightarrow> Inr (case data r of None \<Rightarrow> Line [] | Some d \<Rightarrow> d))"

definition re_match :: "(string \<Rightarrow> 'm option) \<Rightarrow> data_val \<Rightarrow> exn + 'm option" where
  "re_match rx d = (case d of Line s \<Rightarrow> Inr (rx s) | Lines ls \<Rightarrow> Inl TypeError)"

definition match_data :: "(string \<Rightarrow> 'm option) \<Rightarrow> res option \<Rightarrow> exn + 'm option" where
  "match_data rx ro = bindE (get_data ro) (re_match rx)"

fun strip_prefix :: "string \<Rightarrow> string \<Rightarrow> string option" where
  "strip_prefix [] s = Some s"
| "strip_prefix (p # ps) [] = None"
| "strip_prefix (p # ps) (x # xs) = (if p = x then strip_prefix ps xs else None)"

text \<open>
  One-character groups, each from its character class, with a comma between two groups:
  the patterns \<^verbatim>\<open>(?P<a>[0-3]),(?P<b>[0-1]),...\<close>. Text after the last group is
  not looked at, since \<^verbatim>\<open>match\<close> anchors the start only.
\<close>

fun class_fields :: "string list \<Rightarrow> string \<Rightarrow> string list option" where
  "class_fields [] s = Some []"
| "class_fields [cls] s =
     (case s of [] \<Rightarrow> None | x # xs \<Rightarrow> if x \<in> set cls then Some [[x]] else None)"
| "class_fields (cls # clss) s =
     (case s of
        x # y # rest \<Rightarrow>
          if x \<in> set cls \<and> y = CHR '','' then map_option ((#) [x]) (class_fields clss rest)
          else None
      | _ \<Rightarrow> None)"

definition prefixed_fields :: "string \<Rightarrow> string list \<Rightarrow> string \<Rightarrow> string list option" where
  "prefixed_fields prefix classes s =
     (case strip_prefix prefix s of None \<Rightarrow> None | Some rest \<Rightarrow> class_fields classes rest)"

text \<open>\<^verbatim>\<open>"\+CMEE: (?P<mode>[0-2])"\<close>\<close>

definition cmee_regex :: "string \<Rightarrow> string list option" where
  "cmee_regex = prefixed_fields ''+CMEE: '' [''012'']"

text \<open>\<^verbatim>\<open>"\\+CMGF: (?P<mode>[0-1])"\<close>\<close>

definition cmgf_regex :: "string \<Rightarrow> string list option" where
  "cmgf_regex = prefixed_fields ''+CMGF: '' [''01'']"

text \<open>\<^verbatim>\<open>"\\$GPSP: (?P<status>[0-1])"\<close>\<close>

definition gpsp_regex :: "string \<Rightarrow> string list option" where
  "gpsp_regex = prefixed_fields ''$GPSP: '' [''01'']"

text \<open>
  \<^verbatim>\<open>"^\$GPSNMUN: (?P<mode>[0-3]),(?P<gga>[0-1]),(?P<gll>[0-1]),(?P<gsa>[0-1]),\<close>
  \<^verbatim>\<open>(?P<gsv>[0-1]),(?P<rmc>[0-1]),(?P<vtg>[0-1])"\<close>
\<close>

definition gpsnmun_regex :: "string \<Rightarrow> string list option" where
  "gpsnmun_regex =
     prefixed_fields ''$GPSNMUN: '' [''0123'', ''01'', ''01'', ''01'', ''01'', ''01'', ''01'']"

text \<open>\<^verbatim>\<open>"\\+GSN: (?P<value>[0-9]+)"\<close>: the longest run of digits, at least one.\<close>

definition gsn_regex :: "string \<Rightarrow> string option" where
  "gsn_regex s =
     (case strip_prefix ''+GSN: '' s of
        None \<Rightarrow> None
      | Some rest \<Rightarrow> if takeWhile is_digit rest = [] then None else Some (takeWhile is_digit rest))"

text \<open>\<^verbatim>\<open>bool(int(text))\<close>\<close>

definition py_bool_int :: "string \<Rightarrow> exn + bool" where
  "py_bool_int s = bindE (py_int s) (\<lambda>k. Inr (k \<noteq> 0))"

subsection \<open>error\_config\<close>

text \<open>
  The part of \<^verbatim>\<open>error_config\<close> between the read and the test of \<^verbatim>\<open>mode\<close>
  (lines 171 to 178): match, raise \<^verbatim>\<open>InvalidResponseException\<close> without a match,
  look the mode's name up. The returned dictionary \<^verbatim>\<open>{"mode": m}\<close> is the string
  \<open>m\<close> in the model.
\<close>

definition decode_error_config :: "res option \<Rightarrow> exn + string" where
  "decode_error_config ro =
     bindE (match_data cmee_regex ro) (\<lambda>m.
       case m of
         None \<Rightarrow> Inl InvalidResponseException
       | Some g \<Rightarrow> bindE (py_int (g ! 0)) (dict_item ME_ERROR_MODE_MAP))"

definition error_config ::
  "'t serial_ops \<Rightarrow> string option \<Rightarrow> bool \<Rightarrow> 't conn \<Rightarrow> (exn + string) \<times> 't conn" where
  "error_config ops mode_arg force =
     bind (execute_default ops ''AT+CMEE?'') (\<lambda>ro.
     bind (lift (decode_error_config ro)) (\<lambda>cur.
       case mode_arg of
         None \<Rightarrow> ok cur
       | Some m \<Rightarrow>
           if m \<notin> set (dict_values ME_ERROR_MODE_MAP) then throw ValueError
           else if cur \<noteq> m \<or> force then
             bind (lift (dict_key_by_value ME_ERROR_MODE_MAP m)) (\<lambda>mode_val.
             bind (execute_default ops (''AT+CMEE='' @ fmt_d mode_val)) (\<lambda>_.
               ok m))
           else ok cur))"

subsection \<open>imei\<close>

text \<open>
  \<^verbatim>\<open>re.compile(...).match(res.get("data", "")).groupdict()\<close>: without a match the
  method call is on \<^verbatim>\<open>None\<close>, an \<^verbatim>\<open>AttributeError\<close>. The dictionary
  \<^verbatim>\<open>{"value": digits}\<close> is the string of digits.
\<close>

definition imei :: "'t serial_ops \<Rightarrow> 't conn \<Rightarrow> (exn + string) \<times> 't conn" where
  "imei ops =
     bind (execute_default ops ''AT+GSN=1'') (\<lambda>ro.
       lift (bindE (match_data gsn_regex ro) (\<lambda>m.
         case m of None \<Rightarrow> Inl AttributeError | Some v \<Rightarrow> Inr v)))"

subsection \<open>sms\_format\<close>

text \<open>
  The dictionary \<^verbatim>\<open>ret\<close> of \<^verbatim>\<open>sms_format\<close> has at most the key
  \<^verbatim>\<open>"mode"\<close>, whose value comes from \<^verbatim>\<open>SMS_FORMAT_MODES.get(..., None)\<close> and
  so may be \<^verbatim>\<open>None\<close>: the outer \<open>option\<close> is the presence of the key, the inner
  one the value. \<^verbatim>\<open>.group("mode")\<close> on a failed match is an
  \<^verbatim>\<open>AttributeError\<close>.
\<close>

type_synonym mode_dict = "string option option"

definition decode_sms_format :: "res option \<Rightarrow> exn + string option" where
  "decode_sms_format ro =
     bindE (match_data cmgf_regex ro) (\<lambda>m.
       case m of
         None \<Rightarrow> Inl AttributeError
       | Some g \<Rightarrow> bindE (py_int (g ! 0)) (\<lambda>k. Inr (map_of SMS_FORMAT_MODES k)))"

definition sms_format ::
  "'t serial_ops \<Rightarrow> string option \<Rightarrow> bool \<Rightarrow> 't conn \<Rightarrow> (exn + mode_dict) \<times> 't conn" where
  "sms_format ops mode_arg force =
     bind (if \<not> force then
             bind (execute_default ops ''AT+CMGF?'') (\<lambda>ro.
             bind (lift (decode_sms_format ro)) (\<lambda>v. ok (Some v)))
           else if mode_arg = None then throw ValueError
           else ok None) (\<lambda>ret.
       case mode_arg of
         None \<Rightarrow> ok ret
       | Some m0 \<Rightarrow>
           (let m = upper m0 in
            if m \<notin> set (dict_values SMS_FORMAT_MODES) then throw ValueError
            else
              bind (if force then ok True
                    else (case ret of None \<Rightarrow> throw KeyError | Some v \<Rightarrow> ok (Some m \<noteq> v)))
                (\<lambda>change.
                  if change then
                    bind (lift (dict_key_by_value SMS_FORMAT_MODES m)) (\<lambda>k.
                    bind (execute_default ops (''AT+CMGF='' @ fmt_d k)) (\<lambda>_.
                      ok (Some (Some m))))
                  else ok ret)))"

subsection \<open>gnss\_session\<close>

definition decode_gnss_session :: "res option \<Rightarrow> exn + bool" where
  "decode_gnss_session ro =
     bindE (match_data gpsp_regex ro) (\<lambda>m.
       case m of
         None \<Rightarrow> Inl InvalidResponseException
       | Some g \<Rightarrow> py_bool_int (g ! 0))"

definition gnss_session ::
  "'t serial_ops \<Rightarrow> bool option \<Rightarrow> bool \<Rightarrow> 't conn \<Rightarrow> (exn + bool) \<times> 't conn" where
  "gnss_session ops status_arg force =
     bind (execute_default ops ''AT$GPSP?'') (\<lambda>ro.
     bind (lift (decode_gnss_session ro)) (\<lambda>cur.
       case status_arg of
         None \<Rightarrow> ok cur
       | Some st \<Rightarrow>
           if st \<noteq> cur \<or> force then
             bind (execute_default ops (''AT$GPSP='' @ fmt_bool st)) (\<lambda>_. ok st)
           else ok cur))"

subsection \<open>gnss\_nmea\_data\_config\<close>

record nmea_config =
  nmea_mode :: string
  gga :: bool
  gll :: bool
  gsa :: bool
  gsv :: bool
  rmc :: bool
  vtg :: bool

definition decode_nmea_config :: "res option \<Rightarrow> exn + nmea_config" where
  "decode_nmea_config ro =
     bindE (match_data gpsnmun_regex ro) (\<lambda>m.
       case m of
         None \<Rightarrow> Inl InvalidResponseException
       | Some g \<Rightarrow>
           bindE (bindE (py_int (g ! 0)) (dict_item NMEA_MODE_MAP)) (\<lambda>md.
           bindE (py_bool_int (g ! 1)) (\<lambda>b1.
           bindE (py_bool_int (g ! 2)) (\<lambda>b2.
           bindE (py_bool_int (g ! 3)) (\<lambda>b3.
           bindE (py_bool_int (g ! 4)) (\<lambda>b4.
           bindE (py_bool_int (g ! 5)) (\<lambda>b5.
           bindE (py_bool_int (g ! 6)) (\<lambda>b6.
             Inr \<lparr>nmea_mode = md, gga = b1, gll = b2, gsa = b3, gsv = b4, rmc = b5,
                  vtg = b6\<rparr>))))))))"

definition gnss_nmea_data_config ::
  "'t serial_ops \<Rightarrow> string option \<Rightarrow> bool \<Rightarrow> bool \<Rightarrow> bool \<Rightarrow> bool \<Rightarrow> bool \<Rightarrow> bool \<Rightarrow> bool
     \<Rightarrow> 't conn \<Rightarrow> (exn + nmea_config) \<times> 't conn" where
  "gnss_nmea_data_config ops mode_arg gga_arg gll_arg gsa_arg gsv_arg rmc_arg vtg_arg force =
     bind (execute_default ops ''AT$GPSNMUN?'') (\<lambda>ro.
     bind (lift (decode_nmea_config ro)) (\<lambda>cur.
       case mode_arg of
         None \<Rightarrow> ok cur
       | Some m \<Rightarrow>
           if m \<notin> set (dict_values NMEA_MODE_MAP) then throw ValueError
           else if nmea_mode cur \<noteq> m \<or> gga cur \<noteq> gga_arg \<or> gll cur \<noteq> gll_arg
                   \<or> gsa cur \<noteq> gsa_arg \<or> gsv cur \<noteq> gsv_arg \<or> rmc cur \<noteq> rmc_arg
                   \<or> vtg cur \<noteq> vtg_arg \<or> force then
             bind (lift (dict_key_by_value NMEA_MODE_MAP m)) (\<lambda>mode_val.
             bind (execute ops
                     (''AT$GPSNMUN='' @ fmt_d mode_val @ '','' @ fmt_bool gga_arg @ '',''
                        @ fmt_bool gll_arg @ '','' @ fmt_bool gsa_arg @ '',''
                        @ fmt_bool gsv_arg @ '','' @ fmt_bool rmc_arg @ '',''
                        @ fmt_bool vtg_arg)
                     (if mode_val = NMEA_MODE_PORT_LOCK then [''CONNECT''] else [''OK''])
                     True None None True) (\<lambda>_.
               ok \<lparr>nmea_mode = m, gga = gga_arg, gll = gll_arg, gsa = gsa_arg, gsv = gsv_arg,
                    rmc = rmc_arg, vtg = vtg_arg\<rparr>))
           else ok cur))"

subsection \<open>gnss\_location\<close>

text \<open>
  \<^verbatim>\<open>s[i:j]\<close> for indices that are not negative, and \<^verbatim>\<open>s[i:-1]\<close>.
\<close>

definition slice :: "nat \<Rightarrow> nat \<Rightarrow> string \<Rightarrow> string" where
  "slice i j s = take (j - i) (drop i s)"

definition slice_to_last :: "nat \<Rightarrow> string \<Rightarrow> string" where
  "slice_to_last i s = butlast (drop i s)"

text \<open>
  \<^verbatim>\<open>float(text)\<close>. A Python float is modelled by the rational number its decimal
  text denotes, so the rounding of the binary representation is outside the model. The
  texts that reach \<^verbatim>\<open>float\<close> in this module are regular-expression groups made
  of a sign, digits and a point; those are the texts the model converts (surrounding
  whitespace dropped, one sign, digits with at most one point and at least one digit),
  every other text is a \<^verbatim>\<open>ValueError\<close> here, and \<^verbatim>\<open>float(None)\<close> is a
  \<^verbatim>\<open>TypeError\<close>.
\<close>

definition py_float :: "string \<Rightarrow> exn + rat" where
  "py_float s =
     (let t = strip s;
          neg = (case t of [] \<Rightarrow> False | x # _ \<Rightarrow> x = CHR ''-'');
          u = (case t of [] \<Rightarrow> [] | x # r \<Rightarrow> if x = CHR ''-'' \<or> x = CHR ''+'' then r else t);
          ip = takeWhile is_digit u;
          rest = dropWhile is_digit u;
          fp = (case rest of [] \<Rightarrow> [] | x # r \<Rightarrow> r);
          shape = (case rest of [] \<Rightarrow> True | x # r \<Rightarrow> x = CHR ''.'' \<and> list_all is_digit r);
          v = of_nat (digits_val ip) + of_nat (digits_val fp) / 10 ^ length fp
      in if shape \<and> (ip \<noteq> [] \<or> fp \<noteq> []) then Inr (if neg then - v else v)
         else Inl ValueError)"

definition py_float_opt :: "string option \<Rightarrow> exn + rat" where
  "py_float_opt g = (case g of None \<Rightarrow> Inl TypeError | Some s \<Rightarrow> py_float s)"

text \<open>
  The pieces of the pattern of lines 374 to 386. A piece takes a prefix of the text and
  gives it with what follows, or fails. Every repetition is greedy; a shorter repetition
  never helps, since what follows a group is a comma, which no group contains.
\<close>

type_synonym matcher = "string \<Rightarrow> (string \<times> string) option"

definition m_digits :: "nat \<Rightarrow> matcher" where
  "m_digits n s =
     (if n \<le> length s \<and> list_all is_digit (take n s) then Some (take n s, drop n s) else None)"

definition m_digits_some :: matcher where
  "m_digits_some s =
     (if takeWhile is_digit s = [] then None
      else Some (takeWhile is_digit s, dropWhile is_digit s))"

definition m_digits_any :: matcher where
  "m_digits_any s = Some (takeWhile is_digit s, dropWhile is_digit s)"

definition m_char :: "string \<Rightarrow> matcher" where
  "m_char cls s = (case s of [] \<Rightarrow> None | x # r \<Rightarrow> if x \<in> set cls then Some ([x], r) else None)"

definition m_opt_char :: "char \<Rightarrow> matcher" where
  "m_opt_char y s = (case s of [] \<Rightarrow> Some ([], []) | x # r \<Rightarrow> if x = y then Some ([x], r) else Some ([], s))"

definition m_seq :: "matcher \<Rightarrow> matcher \<Rightarrow> matcher" where
  "m_seq p q s =
     (case p s of
        None \<Rightarrow> None
      | Some (a, r) \<Rightarrow> (case q r of None \<Rightarrow> None | Some (b, r') \<Rightarrow> Some (a @ b, r')))"

text \<open>\<^verbatim>\<open>(group)?,\<close>: the group and a comma, or the comma alone.\<close>

definition opt_group :: "matcher \<Rightarrow> string \<Rightarrow> (string option \<times> string) option" where
  "opt_group p s =
     (case (case p s of
              Some (a, x # r) \<Rightarrow> if x = CHR '','' then Some (Some a, r) else None
            | _ \<Rightarrow> None) of
        Some res \<Rightarrow> Some res
      | None \<Rightarrow>
          (case s of
             [] \<Rightarrow> None
           | x # r \<Rightarrow> if x = CHR '','' then Some (None, r) else None))"

definition g_utc :: matcher where
  "g_utc = m_seq (m_digits 6) (m_seq (m_char ''.'') (m_digits 3))"

definition g_lat :: matcher where
  "g_lat = m_seq (m_digits 4) (m_seq (m_char ''.'') (m_seq (m_digits 4) (m_char ''NS'')))"

definition g_lon :: matcher where
  "g_lon = m_seq (m_digits 5) (m_seq (m_char ''.'') (m_seq (m_digits 4) (m_char ''WE'')))"

definition g_hdop :: matcher where
  "g_hdop = m_seq m_digits_some (m_seq (m_opt_char CHR ''.'') m_digits_any)"

definition g_altitude :: matcher where
  "g_altitude = m_seq (m_opt_char CHR ''-'') g_hdop"

definition g_speed :: matcher where
  "g_speed = m_seq m_digits_some (m_seq (m_char ''.'') m_digits_some)"

record gpsacp_groups =
  utc :: "string option"
  lat :: "string option"
  lon :: "string option"
  hdop :: "string option"
  altitude :: "string option"
  fix_group :: string
  cog :: "string option"
  spkm :: "string option"
  spkn :: "string option"
  date_group :: "string option"
  nsat_gps :: "string option"
  nsat_glonass :: "string option"

text \<open>Optional groups one after the other, each with its comma.\<close>

fun opt_groups :: "matcher list \<Rightarrow> string \<Rightarrow> (string option list \<times> string) option" where
  "opt_groups [] s = Some ([], s)"
| "opt_groups (p # ps) s =
     (case opt_group p s of
        None \<Rightarrow> None
      | Some vr \<Rightarrow>
          (case opt_groups ps (snd vr) of
             None \<Rightarrow> None
           | Some vsr \<Rightarrow> Some (fst vr # fst vsr, snd vsr)))"

definition gpsacp_regex :: "string \<Rightarrow> gpsacp_groups option" where
  "gpsacp_regex s =
     (case strip_prefix ''$GPSACP: '' s of
        None \<Rightarrow> None
      | Some s0 \<Rightarrow>
     (case opt_groups [g_utc, g_lat, g_lon, g_hdop, g_altitude] s0 of
        None \<Rightarrow> None
      | Some a \<Rightarrow>
     (case m_seq (m_char ''0123'') (m_char '','') (snd a) of
        None \<Rightarrow> None
      | Some f \<Rightarrow>
     (case opt_groups [g_speed, g_speed, g_speed, m_digits 6, m_digits 2] (snd f) of
        None \<Rightarrow> None
      | Some b \<Rightarrow>
          Some \<lparr>utc = fst a ! 0, lat = fst a ! 1, lon = fst a ! 2, hdop = fst a ! 3,
                altitude = fst a ! 4, fix_group = take 1 (fst f),
                cog = fst b ! 0, spkm = fst b ! 1, spkn = fst b ! 2,
                date_group = fst b ! 3, nsat_gps = fst b ! 4,
                nsat_glonass = map_option fst (m_digits 2 (snd b))\<rparr>))))"

text \<open>
  The returned dictionary. \<^verbatim>\<open>lat\<close> and \<^verbatim>\<open>lon\<close> are numbers when decimal
  degrees are asked for, and otherwise the groups as matched, which may be
  \<^verbatim>\<open>None\<close>.
\<close>

datatype coord = Degrees rat | Raw "string option"

record gnss_loc =
  time_utc :: string
  date_utc :: string
  loc_hdop :: rat
  loc_alt :: rat
  loc_fix :: string
  loc_cog :: rat
  sog_km :: rat
  sog_kn :: rat
  loc_nsat_gps :: int
  loc_nsat_glonass :: int
  loc_lat :: coord
  loc_lon :: coord

text \<open>\<^verbatim>\<open>text[i:j]\<close> on a group, a \<^verbatim>\<open>TypeError\<close> when the group is \<^verbatim>\<open>None\<close>.\<close>

definition subscript :: "string option \<Rightarrow> exn + string" where
  "subscript g = (case g of None \<Rightarrow> Inl TypeError | Some s \<Rightarrow> Inr s)"

text \<open>
  Lines 394 to 432, on the groups of a match: the test of the fix first, then the entries
  of the dictionary in the order they are written, then the coordinates.
\<close>

definition parse_gnss_location :: "bool \<Rightarrow> gpsacp_groups \<Rightarrow> exn + gnss_loc" where
  "parse_gnss_location decimal_degrees g =
     bindE (py_int (fix_group g)) (\<lambda>fx.
       if fx \<in> set [0, 1] then Inl NoFixException
       else
         bindE (subscript (utc g)) (\<lambda>t.
         bindE (subscript (date_group g)) (\<lambda>d.
         bindE (py_float_opt (hdop g)) (\<lambda>v_hdop.
         bindE (py_float_opt (altitude g)) (\<lambda>v_alt.
         bindE (bindE (py_int (fix_group g)) (dict_item GNSS_LOCATION_FIX_MAP)) (\<lambda>v_fix.
         bindE (py_float_opt (cog g)) (\<lambda>v_cog.
         bindE (py_float_opt (spkm g)) (\<lambda>v_km.
         bindE (py_float_opt (spkn g)) (\<lambda>v_kn.
         bindE (py_int_opt (nsat_gps g)) (\<lambda>v_gps.
         bindE (py_int_opt (nsat_glonass g)) (\<lambda>v_glonass.
         bindE (if decimal_degrees then
                  bindE (subscript (lat g)) (\<lambda>la.
                  bindE (py_float (slice 0 2 la)) (\<lambda>lat_deg.
                  bindE (py_float (slice_to_last 2 la)) (\<lambda>lat_min.
                  bindE (subscript (lon g)) (\<lambda>lo.
                  bindE (py_float (slice 0 3 lo)) (\<lambda>lon_deg.
                  bindE (py_float (slice_to_last 3 lo)) (\<lambda>lon_min.
                    Inr (Degrees (lat_deg + lat_min / 60), Degrees (lon_deg + lon_min / 60))))))))
                else Inr (Raw (lat g), Raw (lon g))) (\<lambda>ll.
           Inr \<lparr>time_utc = slice 0 2 t @ '':'' @ slice 2 4 t @ '':'' @ slice 4 6 t,
                date_utc = ''20'' @ slice 4 6 d @ ''-'' @ slice 2 4 d @ ''-'' @ slice 0 2 d,
                loc_hdop = v_hdop, loc_alt = v_alt, loc_fix = v_fix, loc_cog = v_cog,
                sog_km = v_km, sog_kn = v_kn, loc_nsat_gps = v_gps,
                loc_nsat_glonass = v_glonass,
                loc_lat = fst ll, loc_lon = snd ll\<rparr>))))))))))))"

definition decode_gnss_location :: "bool \<Rightarrow> res option \<Rightarrow> exn + gnss_loc" where
  "decode_gnss_location decimal_degrees ro =
     bindE (match_data gpsacp_regex ro) (\<lambda>m.
       case m of
         None \<Rightarrow> Inl InvalidResponseException
       | Some g \<Rightarrow> parse_gnss_location decimal_degrees g)"

definition gnss_location ::
  "'t serial_ops \<Rightarrow> bool \<Rightarrow> 't conn \<Rightarrow> (exn + gnss_loc) \<times> 't conn" where
  "gnss_location ops decimal_degrees =
     bind (execute_default ops ''AT$GPSACP'') (\<lambda>ro.
       lift (decode_gnss_location decimal_degrees ro))"

section \<open>Properties\<close>

subsection \<open>The ready-word scan\<close>




subsection \<open>The outcome of execute and the ready words\<close>




lemma finish_extends:
  "\<exists>rest. trace (snd (finish ops keep cd roe (body, c))) = trace c @ rest"
  by (auto simp: finish_def conn_close_def conn_sleep_def error_in_def
      split: prod.splits option.splits sum.splits bool.splits)








subsection \<open>What the accessors send\<close>

lemma scan_extends: "\<exists>rest. trace (snd (scan ops tmo ws ro c)) = trace c @ rest"
proof (induction ws arbitrary: ro c)
  case Nil
  then show ?case by simp
next
  case (Cons w ws)
  obtain x c' where rd: "conn_read_until ops w tmo c = (x, c')"
    by (cases "conn_read_until ops w tmo c")
  then have tr: "trace c' = trace c @ [ReadUntil w tmo]"
    by (auto simp: conn_read_until_def split: prod.splits)
  show ?case
  proof (cases x)
    case (Inl e)
    with rd tr show ?thesis by simp
  next
    case (Inr r)
    from Cons.IH [of "Some r" c'] obtain rest where
      "trace (snd (scan ops tmo ws (Some r) c')) = trace c' @ rest" ..
    with rd tr Inr show ?thesis by simp
  qed
qed

lemma execute_first_event:
  "\<exists>rest. trace (snd (execute ops cmd ws keep cd tmo roe c)) = trace c @ WriteLine cmd # rest"
proof -
  obtain e c0 where w: "conn_write_line ops cmd c = (e, c0)"
    by (cases "conn_write_line ops cmd c")
  then have t0: "trace c0 = trace c @ [WriteLine cmd]"
    by (auto simp: conn_write_line_def split: prod.splits)
  obtain body c1 where b: "exchange ops cmd ws tmo c = (body, c1)"
    by (cases "exchange ops cmd ws tmo c")
  have "\<exists>rest. trace c1 = trace c0 @ rest"
  proof (cases e)
    case None
    with w b have "c1 = snd (scan ops tmo ws None c0)" by (simp add: exchange_def)
    then show ?thesis using scan_extends [of ops tmo ws None c0] by simp
  next
    case (Some a)
    with w b show ?thesis by (simp add: exchange_def)
  qed
  then obtain r1 where t1: "trace c1 = trace c0 @ r1" ..
  obtain r2 where "trace (snd (finish ops keep cd roe (body, c1))) = trace c1 @ r2"
    using finish_extends by blast
  with t0 t1 b show ?thesis by (simp add: execute_def)
qed

lemma execute_extends:
  "\<exists>rest. trace (snd (execute ops cmd ws keep cd tmo roe c)) = trace c @ rest"
  using execute_first_event [of ops cmd ws keep cd tmo roe c] by auto

lemma execute_default_extends:
  "\<exists>rest. trace (snd (execute_default ops cmd c)) = trace c @ rest"
  unfolding execute_default_def by (rule execute_extends)

lemma execute_default_first_event:
  "\<exists>rest. trace (snd (execute_default ops cmd c)) = trace c @ WriteLine cmd # rest"
  unfolding execute_default_def by (rule execute_first_event)

lemma ok_extends: "\<exists>rest. trace (snd (ok x c)) = trace c @ rest"
  by (simp add: ok_def)

lemma throw_extends: "\<exists>rest. trace (snd (throw e c)) = trace c @ rest"
  by (simp add: throw_def)

lemma lift_extends: "\<exists>rest. trace (snd (lift r c)) = trace c @ rest"
  by (simp add: lift_def)

lemma bind_extends:
  assumes "\<And>s. \<exists>rest. trace (snd (m s)) = trace s @ rest"
    and "\<And>x s. \<exists>rest. trace (snd (f x s)) = trace s @ rest"
  shows "\<exists>rest. trace (snd (bind m f c)) = trace c @ rest"
proof -
  obtain r c1 where m: "m c = (r, c1)" by (cases "m c")
  from assms(1) [of c] m obtain r1 where t1: "trace c1 = trace c @ r1" by auto
  show ?thesis
  proof (cases r)
    case (Inl e)
    with m t1 show ?thesis by (simp add: bind_def)
  next
    case (Inr x)
    from assms(2) [of x c1] obtain r2 where "trace (snd (f x c1)) = trace c1 @ r2" ..
    with m t1 Inr show ?thesis by (simp add: bind_def)
  qed
qed

lemma bind_first_event:
  assumes "\<exists>rest. trace (snd (m c)) = trace c @ e # rest"
    and "\<And>x s. \<exists>rest. trace (snd (f x s)) = trace s @ rest"
  shows "\<exists>rest. trace (snd (bind m f c)) = trace c @ e # rest"
proof -
  obtain r c1 where m: "m c = (r, c1)" by (cases "m c")
  from assms(1) m obtain r1 where t1: "trace c1 = trace c @ e # r1" by auto
  show ?thesis
  proof (cases r)
    case (Inl e)
    with m t1 show ?thesis by (simp add: bind_def)
  next
    case (Inr x)
    from assms(2) [of x c1] obtain r2 where "trace (snd (f x c1)) = trace c1 @ r2" ..
    with m t1 Inr show ?thesis by (simp add: bind_def)
  qed
qed

lemmas extends_intros =
  bind_extends ok_extends throw_extends lift_extends execute_default_extends execute_extends

lemma error_config_first_event:
  "\<exists>rest. trace (snd (error_config ops mode_arg force c)) = trace c @ WriteLine ''AT+CMEE?'' # rest"
  unfolding error_config_def
  by (rule bind_first_event, rule execute_default_first_event)
     (auto intro!: extends_intros split: option.splits)

lemma gnss_session_first_event:
  "\<exists>rest. trace (snd (gnss_session ops status_arg force c)) = trace c @ WriteLine ''AT$GPSP?'' # rest"
  unfolding gnss_session_def
  by (rule bind_first_event, rule execute_default_first_event)
     (auto intro!: extends_intros split: option.splits)

lemma gnss_nmea_data_config_first_event:
  "\<exists>rest. trace (snd (gnss_nmea_data_config ops mode_arg a1 a2 a3 a4 a5 a6 force c)) =
      trace c @ WriteLine ''AT$GPSNMUN?'' # rest"
  unfolding gnss_nmea_data_config_def
  by (rule bind_first_event, rule execute_default_first_event)
     (auto intro!: extends_intros split: option.splits)

lemma sms_format_first_event:
  "\<exists>rest. trace (snd (sms_format ops mode_arg False c)) = trace c @ WriteLine ''AT+CMGF?'' # rest"
  unfolding sms_format_def
  apply simp
  apply (rule bind_first_event)
   apply (rule bind_first_event, rule execute_default_first_event)
   apply (auto intro!: extends_intros simp: Let_def split: option.splits)
  done

lemma execute_default_events:
  "trace (snd (execute_default ops q c)) = trace c @ [WriteLine q]
   \<or> trace (snd (execute_default ops q c)) = trace c @ [WriteLine q, ReadUntil ''OK'' None]"
  by (auto simp: execute_default_def execute_def exchange_def finish_def error_in_def
        conn_write_line_def conn_read_until_def
      split: prod.splits option.splits sum.splits bool.splits if_splits)

lemma execute_default_ok_trace:
  assumes "execute_default ops q c = (Inr ro, c1)"
  shows "trace c1 = trace c @ [WriteLine q, ReadUntil ''OK'' None]"
  using assms
  by (auto simp: execute_default_def execute_def exchange_def finish_def error_in_def
        conn_write_line_def conn_read_until_def
      split: prod.splits option.splits sum.splits bool.splits if_splits)

lemma sms_format_forced_no_read:
  "WriteLine ''AT+CMGF?'' \<notin>
     set (drop (length (trace c)) (trace (snd (sms_format ops mode_arg True c))))"
proof (cases mode_arg)
  case None
  then show ?thesis by (simp add: sms_format_def bind_def throw_def)
next
  case (Some m0)
  show ?thesis
  proof (cases "upper m0 \<in> set (dict_values SMS_FORMAT_MODES)")
    case False
    with Some show ?thesis by (simp add: sms_format_def bind_def throw_def ok_def Let_def)
  next
    case True
    then obtain k where k: "dict_key_by_value SMS_FORMAT_MODES (upper m0) = Inr k"
      by (auto simp: dict_values_def SMS_FORMAT_MODES_def dict_key_by_value_def)
    let ?q = "''AT+CMGF='' @ fmt_d k"
    obtain r c1 where e: "execute_default ops ?q c = (r, c1)"
      by (cases "execute_default ops ?q c")
    have s: "snd (sms_format ops mode_arg True c) = c1"
      using Some True k e
      by (auto simp: sms_format_def bind_def throw_def ok_def lift_def Let_def split: sum.splits)
    from execute_default_events [of ops ?q c] e
    show ?thesis unfolding s by auto
  qed
qed

text \<open>
  C3, as amended. \<^verbatim>\<open>error_config\<close>, \<^verbatim>\<open>gnss_session\<close> and
  \<^verbatim>\<open>gnss_nmea_data_config\<close> send their read query first, whatever the desired value
  and \<^verbatim>\<open>force\<close> are: the first thing they add to the trace is the write of the
  query. \<^verbatim>\<open>sms_format\<close> does so when \<^verbatim>\<open>force\<close> is false; with
  \<^verbatim>\<open>force\<close> true it never sends the read query \<^verbatim>\<open>AT+CMGF?\<close>.
\<close>

theorem accessors_read_first:
  "(\<exists>rest. trace (snd (error_config ops mode_arg force c)) =
       trace c @ WriteLine ''AT+CMEE?'' # rest)
   \<and> (\<exists>rest. trace (snd (gnss_session ops status_arg force c)) =
       trace c @ WriteLine ''AT$GPSP?'' # rest)
   \<and> (\<exists>rest. trace (snd (gnss_nmea_data_config ops mode_arg gga_arg gll_arg gsa_arg gsv_arg
                               rmc_arg vtg_arg force c)) =
       trace c @ WriteLine ''AT$GPSNMUN?'' # rest)
   \<and> (\<exists>rest. trace (snd (sms_format ops mode_arg False c)) =
       trace c @ WriteLine ''AT+CMGF?'' # rest)
   \<and> WriteLine ''AT+CMGF?'' \<notin>
       set (drop (length (trace c)) (trace (snd (sms_format ops mode_arg True c))))"
  by (intro conjI error_config_first_event gnss_session_first_event
      gnss_nmea_data_config_first_event sms_format_first_event sms_format_forced_no_read)

theorem accessors_read_first_witness:
  "(\<exists>rest. trace (snd (error_config stub (Some ''TXT'') True (modem [''+CMEE: 2'', ''OK'']))) =
       trace (modem [''+CMEE: 2'', ''OK'']) @ WriteLine ''AT+CMEE?'' # rest)
   \<and> (\<exists>rest. trace (snd (sms_format stub (Some ''TXT'') False (modem [''+CMEE: 2'', ''OK'']))) =
       trace (modem [''+CMEE: 2'', ''OK'']) @ WriteLine ''AT+CMGF?'' # rest)
   \<and> WriteLine ''AT+CMGF?'' \<notin>
       set (drop (length (trace (modem [''+CMEE: 2'', ''OK''])))
             (trace (snd (sms_format stub (Some ''TXT'') True (modem [''+CMEE: 2'', ''OK''])))))"
  using accessors_read_first [of stub "Some ''TXT''" True "modem [''+CMEE: 2'', ''OK'']"]
  by blast

text \<open>
  C3 as stated fails for \<^verbatim>\<open>sms_format\<close>: with \<^verbatim>\<open>force\<close> true the only
  command sent is the write, no read query precedes it.
\<close>

theorem sms_format_forced_skips_read:
  "sms_format stub (Some ''TXT'') True (modem [''OK'']) =
     (Inr (Some (Some ''TXT'')),
      \<lparr>trace = [WriteLine ''AT+CMGF=1'', ReadUntil ''OK'' None], dev = []\<rparr>)"
  by code_simp

subsection \<open>No write when the setting already has the desired value\<close>

lemma bindE_InrE:
  assumes "bindE r f = Inr y"
  obtains x where "r = Inr x" and "f x = Inr y"
  using assms by (cases r) (auto simp: bindE_def)

lemma bind_InrE:
  assumes "bind m f c = (Inr y, c')"
  obtains x c1 where "m c = (Inr x, c1)" and "f x c1 = (Inr y, c')"
  using assms by (auto simp: bind_def split: prod.splits sum.splits)

lemma lift_InrE:
  assumes "lift r c = (Inr y, c')"
  obtains "r = Inr y" and "c' = c"
  using assms by (auto simp: lift_def)

lemma dict_item_in_values:
  assumes "dict_item d k = Inr v"
  shows "v \<in> set (dict_values d)"
proof -
  from assms have "map_of d k = Some v"
    by (simp add: dict_item_def split: option.splits)
  then have "(k, v) \<in> set d" by (rule map_of_SomeD)
  then show ?thesis by (force simp: dict_values_def)
qed

lemma decode_error_config_in_values:
  assumes "decode_error_config ro = Inr v"
  shows "v \<in> set (dict_values ME_ERROR_MODE_MAP)"
  using assms
  by (auto simp: decode_error_config_def bindE_def dest: dict_item_in_values
      split: sum.splits option.splits)

lemma getter_reads_only:
  assumes "bind (execute_default ops q) (\<lambda>ro. bind (lift (dcd ro)) k) c = (Inr v, c')"
    and "\<And>x s y s'. k x s = (Inr y, s') \<Longrightarrow> s' = s"
  shows "trace c' = trace c @ [WriteLine q, ReadUntil ''OK'' None]"
proof -
  from assms(1) obtain ro c1 where e: "execute_default ops q c = (Inr ro, c1)"
    and r: "bind (lift (dcd ro)) k c1 = (Inr v, c')"
    by (auto simp: bind_def split: prod.splits sum.splits)
  from r obtain x where "k x c1 = (Inr v, c')"
    by (auto simp: bind_def lift_def split: prod.splits sum.splits)
  then have "c' = c1" by (rule assms(2))
  with execute_default_ok_trace [OF e] show ?thesis by simp
qed

lemma error_config_unchanged:
  assumes "error_config ops None False c = (Inr v, c')"
  shows "error_config ops (Some v) False c = (Inr v, c')
       \<and> trace c' = trace c @ [WriteLine ''AT+CMEE?'', ReadUntil ''OK'' None]"
proof
  show "error_config ops (Some v) False c = (Inr v, c')"
    using assms
    by (auto simp: error_config_def bind_def ok_def lift_def throw_def
        dest: decode_error_config_in_values split: prod.splits sum.splits)
  show "trace c' = trace c @ [WriteLine ''AT+CMEE?'', ReadUntil ''OK'' None]"
    using assms unfolding error_config_def
    by (rule getter_reads_only) (simp add: ok_def)
qed

lemma gnss_session_unchanged:
  assumes "gnss_session ops None False c = (Inr v, c')"
  shows "gnss_session ops (Some v) False c = (Inr v, c')
       \<and> trace c' = trace c @ [WriteLine ''AT$GPSP?'', ReadUntil ''OK'' None]"
proof
  show "gnss_session ops (Some v) False c = (Inr v, c')"
    using assms
    by (auto simp: gnss_session_def bind_def ok_def lift_def throw_def
        split: prod.splits sum.splits)
  show "trace c' = trace c @ [WriteLine ''AT$GPSP?'', ReadUntil ''OK'' None]"
    using assms unfolding gnss_session_def
    by (rule getter_reads_only) (simp add: ok_def)
qed

lemma decode_nmea_config_in_values:
  assumes "decode_nmea_config ro = Inr v"
  shows "nmea_mode v \<in> set (dict_values NMEA_MODE_MAP)"
proof -
  from assms obtain m where "match_data gpsnmun_regex ro = Inr m"
    and m: "(case m of
         None \<Rightarrow> Inl InvalidResponseException
       | Some g \<Rightarrow>
           bindE (bindE (py_int (g ! 0)) (dict_item NMEA_MODE_MAP)) (\<lambda>md.
           bindE (py_bool_int (g ! 1)) (\<lambda>b1.
           bindE (py_bool_int (g ! 2)) (\<lambda>b2.
           bindE (py_bool_int (g ! 3)) (\<lambda>b3.
           bindE (py_bool_int (g ! 4)) (\<lambda>b4.
           bindE (py_bool_int (g ! 5)) (\<lambda>b5.
           bindE (py_bool_int (g ! 6)) (\<lambda>b6.
             Inr \<lparr>nmea_mode = md, gga = b1, gll = b2, gsa = b3, gsv = b4, rmc = b5,
                  vtg = b6\<rparr>)))))))) = Inr v"
    unfolding decode_nmea_config_def by (rule bindE_InrE)
  from m obtain g where g: "m = Some g" by (cases m) auto
  from m [unfolded g, simplified] show ?thesis
    by (elim bindE_InrE) (auto dest: dict_item_in_values)
qed

lemma gnss_nmea_data_config_unchanged:
  assumes "gnss_nmea_data_config ops None a1 a2 a3 a4 a5 a6 False c = (Inr v, c')"
  shows "gnss_nmea_data_config ops (Some (nmea_mode v)) (gga v) (gll v) (gsa v) (gsv v) (rmc v)
           (vtg v) False c = (Inr v, c')
       \<and> trace c' = trace c @ [WriteLine ''AT$GPSNMUN?'', ReadUntil ''OK'' None]"
proof
  from assms obtain ro where e: "execute_default ops ''AT$GPSNMUN?'' c = (Inr ro, c')"
    and d: "decode_nmea_config ro = Inr v"
    unfolding gnss_nmea_data_config_def
    by (elim bind_InrE lift_InrE) (auto simp: ok_def)
  show "gnss_nmea_data_config ops (Some (nmea_mode v)) (gga v) (gll v) (gsa v) (gsv v) (rmc v)
           (vtg v) False c = (Inr v, c')"
    using decode_nmea_config_in_values [OF d]
    by (simp add: gnss_nmea_data_config_def bind_def e lift_def d ok_def)
  show "trace c' = trace c @ [WriteLine ''AT$GPSNMUN?'', ReadUntil ''OK'' None]"
    using execute_default_ok_trace [OF e] .
qed

lemma class_fields_single:
  assumes "class_fields [cls] s = Some g"
  shows "\<exists>x. x \<in> set cls \<and> g = [[x]]"
  using assms by (cases s) (auto split: if_splits)

lemma py_int_bit:
  assumes "x \<in> set ''01''"
  shows "py_int [x] = Inr (if x = CHR ''1'' then 1 else 0)"
proof -
  have zero: "py_int ''0'' = Inr 0" by code_simp
  have one: "py_int ''1'' = Inr 1" by code_simp
  from assms have "x = CHR ''0'' \<or> x = CHR ''1''" by simp
  then show ?thesis using zero one by auto
qed

lemma match_data_SomeE:
  assumes "match_data rx ro = Inr (Some g)"
  obtains s where "rx s = Some g"
proof -
  from assms obtain d where "re_match rx d = Inr (Some g)"
    unfolding match_data_def by (rule bindE_InrE)
  then show thesis
    by (cases d) (auto simp: re_match_def intro: that)
qed

lemma decode_sms_format_values:
  assumes "decode_sms_format ro = Inr v"
  shows "v = Some ''PUD'' \<or> v = Some ''TXT''"
proof -
  from assms obtain m where mm: "match_data cmgf_regex ro = Inr m"
    and c: "(case m of
         None \<Rightarrow> Inl AttributeError
       | Some g \<Rightarrow> bindE (py_int (g ! 0)) (\<lambda>k. Inr (map_of SMS_FORMAT_MODES k))) = Inr v"
    unfolding decode_sms_format_def by (rule bindE_InrE)
  from c obtain g where g: "m = Some g" by (cases m) auto
  from mm [unfolded g] obtain s where "cmgf_regex s = Some g"
    by (rule match_data_SomeE)
  then obtain rest where "class_fields [''01''] rest = Some g"
    by (auto simp: cmgf_regex_def prefixed_fields_def split: option.splits)
  then obtain x where x: "x \<in> set ''01''" and gx: "g = [[x]]"
    by (blast dest: class_fields_single)
  from c [unfolded g] have "bindE (py_int [x]) (\<lambda>k. Inr (map_of SMS_FORMAT_MODES k)) = Inr v"
    by (simp add: gx)
  then have v: "v = map_of SMS_FORMAT_MODES (if x = CHR ''1'' then 1 else 0)"
    unfolding py_int_bit [OF x] by (simp add: bindE_def)
  show ?thesis
  proof (cases "x = CHR ''1''")
    case True
    with v show ?thesis by (simp add: SMS_FORMAT_MODES_def)
  next
    case False
    with v show ?thesis by (simp add: SMS_FORMAT_MODES_def)
  qed
qed

lemma sms_format_unchanged:
  assumes "sms_format ops None False c = (Inr (Some (Some v)), c')"
  shows "sms_format ops (Some v) False c = (Inr (Some (Some v)), c')
       \<and> trace c' = trace c @ [WriteLine ''AT+CMGF?'', ReadUntil ''OK'' None]"
proof
  from assms obtain ro where e: "execute_default ops ''AT+CMGF?'' c = (Inr ro, c')"
    and d: "decode_sms_format ro = Inr (Some v)"
    by (auto simp: sms_format_def bind_def ok_def lift_def throw_def
        split: prod.splits sum.splits)
  from decode_sms_format_values [OF d] have v: "v = ''PUD'' \<or> v = ''TXT''" by simp
  then have u: "upper v = v" and mem: "v \<in> set (dict_values SMS_FORMAT_MODES)"
    by (auto simp: upper_def upper_char_def dict_values_def SMS_FORMAT_MODES_def)
  show "sms_format ops (Some v) False c = (Inr (Some (Some v)), c')"
    using e d u mem
    by (simp add: sms_format_def bind_def ok_def lift_def throw_def Let_def)
  show "trace c' = trace c @ [WriteLine ''AT+CMGF?'', ReadUntil ''OK'' None]"
    using execute_default_ok_trace [OF e] .
qed

text \<open>
  C2. For each of the four accessors: when the plain read (no desired value) returns the
  value \<open>v\<close> and leaves the connection \<open>c'\<close>, the call with the desired value
  \<open>v\<close> and \<^verbatim>\<open>force\<close> false returns \<open>v\<close> and leaves the same connection
  \<open>c'\<close>, and all that was sent is the read query: one line written, one read for
  \<^verbatim>\<open>OK\<close>, no write command.
\<close>

theorem accessors_no_write_when_equal:
  "(error_config ops None False ca = (Inr va, ca') \<longrightarrow>
      error_config ops (Some va) False ca = (Inr va, ca')
      \<and> trace ca' = trace ca @ [WriteLine ''AT+CMEE?'', ReadUntil ''OK'' None])
   \<and> (sms_format ops None False cb = (Inr (Some (Some vb)), cb') \<longrightarrow>
      sms_format ops (Some vb) False cb = (Inr (Some (Some vb)), cb')
      \<and> trace cb' = trace cb @ [WriteLine ''AT+CMGF?'', ReadUntil ''OK'' None])
   \<and> (gnss_session ops None False cc = (Inr vc, cc') \<longrightarrow>
      gnss_session ops (Some vc) False cc = (Inr vc, cc')
      \<and> trace cc' = trace cc @ [WriteLine ''AT$GPSP?'', ReadUntil ''OK'' None])
   \<and> (gnss_nmea_data_config ops None a1 a2 a3 a4 a5 a6 False cd = (Inr vd, cd') \<longrightarrow>
      gnss_nmea_data_config ops (Some (nmea_mode vd)) (gga vd) (gll vd) (gsa vd) (gsv vd)
        (rmc vd) (vtg vd) False cd = (Inr vd, cd')
      \<and> trace cd' = trace cd @ [WriteLine ''AT$GPSNMUN?'', ReadUntil ''OK'' None])"
  using error_config_unchanged [of ops ca va ca'] sms_format_unchanged [of ops cb vb cb']
    gnss_session_unchanged [of ops cc vc cc']
    gnss_nmea_data_config_unchanged [of ops a1 a2 a3 a4 a5 a6 cd vd cd']
  by blast

theorem accessors_no_write_when_equal_witness:
  "error_config stub (Some ''verbose'') False (modem [''+CMEE: 2'', ''OK'']) =
     (Inr ''verbose'', \<lparr>trace = [WriteLine ''AT+CMEE?'', ReadUntil ''OK'' None], dev = []\<rparr>)
   \<and> sms_format stub (Some ''TXT'') False (modem [''+CMGF: 1'', ''OK'']) =
     (Inr (Some (Some ''TXT'')),
      \<lparr>trace = [WriteLine ''AT+CMGF?'', ReadUntil ''OK'' None], dev = []\<rparr>)
   \<and> gnss_session stub (Some True) False (modem [''$GPSP: 1'', ''OK'']) =
     (Inr True, \<lparr>trace = [WriteLine ''AT$GPSP?'', ReadUntil ''OK'' None], dev = []\<rparr>)
   \<and> gnss_nmea_data_config stub (Some ''second_format'') False True False True False True False
       (modem [''$GPSNMUN: 2,0,1,0,1,0,1'', ''OK'']) =
     (Inr \<lparr>nmea_mode = ''second_format'', gga = False, gll = True, gsa = False, gsv = True,
           rmc = False, vtg = True\<rparr>,
      \<lparr>trace = [WriteLine ''AT$GPSNMUN?'', ReadUntil ''OK'' None], dev = []\<rparr>)"
proof -
  have ha: "error_config stub None False (modem [''+CMEE: 2'', ''OK'']) =
     (Inr ''verbose'', \<lparr>trace = [WriteLine ''AT+CMEE?'', ReadUntil ''OK'' None], dev = []\<rparr>)"
    by code_simp
  have hb: "sms_format stub None False (modem [''+CMGF: 1'', ''OK'']) =
     (Inr (Some (Some ''TXT'')),
      \<lparr>trace = [WriteLine ''AT+CMGF?'', ReadUntil ''OK'' None], dev = []\<rparr>)"
    by code_simp
  have hc: "gnss_session stub None False (modem [''$GPSP: 1'', ''OK'']) =
     (Inr True, \<lparr>trace = [WriteLine ''AT$GPSP?'', ReadUntil ''OK'' None], dev = []\<rparr>)"
    by code_simp
  have hd: "gnss_nmea_data_config stub None False False False False False False False
       (modem [''$GPSNMUN: 2,0,1,0,1,0,1'', ''OK'']) =
     (Inr \<lparr>nmea_mode = ''second_format'', gga = False, gll = True, gsa = False, gsv = True,
           rmc = False, vtg = True\<rparr>,
      \<lparr>trace = [WriteLine ''AT$GPSNMUN?'', ReadUntil ''OK'' None], dev = []\<rparr>)"
    by code_simp
  show ?thesis
    using accessors_no_write_when_equal [of stub
        "modem [''+CMEE: 2'', ''OK'']" "''verbose''"
        "\<lparr>trace = [WriteLine ''AT+CMEE?'', ReadUntil ''OK'' None], dev = []\<rparr>"
        "modem [''+CMGF: 1'', ''OK'']" "''TXT''"
        "\<lparr>trace = [WriteLine ''AT+CMGF?'', ReadUntil ''OK'' None], dev = []\<rparr>"
        "modem [''$GPSP: 1'', ''OK'']" True
        "\<lparr>trace = [WriteLine ''AT$GPSP?'', ReadUntil ''OK'' None], dev = []\<rparr>"
        False False False False False False
        "modem [''$GPSNMUN: 2,0,1,0,1,0,1'', ''OK'']"
        "\<lparr>nmea_mode = ''second_format'', gga = False, gll = True, gsa = False, gsv = True,
           rmc = False, vtg = True\<rparr>"
        "\<lparr>trace = [WriteLine ''AT$GPSNMUN?'', ReadUntil ''OK'' None], dev = []\<rparr>"]
      ha hb hc hd
    by simp
qed

subsection \<open>A response that does not match\<close>

text \<open>
  Not a claim: the decoders that test the match raise
  \<^verbatim>\<open>InvalidResponseException\<close> when there is none.
\<close>

lemma unmatched_raises_InvalidResponseException:
  assumes "match_data cmee_regex ro = Inr None"
    and "match_data gpsp_regex ro = Inr None"
    and "match_data gpsnmun_regex ro = Inr None"
  shows "decode_error_config ro = Inl InvalidResponseException"
    and "decode_gnss_session ro = Inl InvalidResponseException"
    and "decode_nmea_config ro = Inl InvalidResponseException"
  using assms
  by (simp_all add: decode_error_config_def decode_gnss_session_def decode_nmea_config_def
      bindE_def)

text \<open>
  C4, the failing inputs. \<^verbatim>\<open>imei\<close> and \<^verbatim>\<open>sms_format\<close> call a method of
  the match without testing it: a response that does not match makes them raise
  \<^verbatim>\<open>AttributeError\<close>, not \<^verbatim>\<open>InvalidResponseException\<close>.
\<close>

theorem imei_sms_format_unmatched_raise_AttributeError:
  "imei stub (modem [''+GSN: unknown'', ''OK'']) =
     (Inl AttributeError,
      \<lparr>trace = [WriteLine ''AT+GSN=1'', ReadUntil ''OK'' None], dev = []\<rparr>)
   \<and> sms_format stub None False (modem [''+CMGF: 2'', ''OK'']) =
     (Inl AttributeError,
      \<lparr>trace = [WriteLine ''AT+CMGF?'', ReadUntil ''OK'' None], dev = []\<rparr>)"
  by code_simp

subsection \<open>Boolean fields\<close>

lemma bindE_Inr: "bindE (Inr x) f = f x"
  by (simp add: bindE_def)

lemma bindE_Inl: "bindE (Inl e) f = Inl e"
  by (simp add: bindE_def)

lemma py_bool_int_bit:
  assumes "x \<in> set ''01''"
  shows "py_bool_int [x] = Inr (x = CHR ''1'')"
  using py_int_bit [OF assms] by (simp add: py_bool_int_def bindE_def)

lemma nmea_mode_digit:
  assumes "m \<in> set ''0123''"
  shows "\<exists>md. bindE (py_int [m]) (dict_item NMEA_MODE_MAP) = Inr md"
proof -
  have "bindE (py_int ''0'') (dict_item NMEA_MODE_MAP) = Inr ''disabled''" by code_simp
  moreover have "bindE (py_int ''1'') (dict_item NMEA_MODE_MAP) = Inr ''first_format''"
    by code_simp
  moreover have "bindE (py_int ''2'') (dict_item NMEA_MODE_MAP) = Inr ''second_format''"
    by code_simp
  moreover have "bindE (py_int ''3'') (dict_item NMEA_MODE_MAP) = Inr ''port_lock''"
    by code_simp
  moreover from assms have "m = CHR ''0'' \<or> m = CHR ''1'' \<or> m = CHR ''2'' \<or> m = CHR ''3''"
    by simp
  ultimately show ?thesis by auto
qed

lemma class_fields_step:
  assumes "x \<in> set cls"
  shows "class_fields (cls # c2 # cs) (x # CHR '','' # rest) =
           map_option ((#) [x]) (class_fields (c2 # cs) rest)"
  using assms by simp

lemma class_fields_last:
  assumes "x \<in> set cls"
  shows "class_fields [cls] (x # rest) = Some [[x]]"
  using assms by simp

lemma gpsnmun_regex_fields:
  assumes "m \<in> set ''0123''" and "a1 \<in> set ''01''" and "a2 \<in> set ''01''"
    and "a3 \<in> set ''01''" and "a4 \<in> set ''01''" and "a5 \<in> set ''01''" and "a6 \<in> set ''01''"
  shows "gpsnmun_regex (''$GPSNMUN: '' @ [m, CHR '','', a1, CHR '','', a2, CHR '','', a3,
            CHR '','', a4, CHR '','', a5, CHR '','', a6] @ rest) =
         Some [[m], [a1], [a2], [a3], [a4], [a5], [a6]]"
proof -
  have "class_fields [''0123'', ''01'', ''01'', ''01'', ''01'', ''01'', ''01'']
          (m # CHR '','' # a1 # CHR '','' # a2 # CHR '','' # a3 # CHR '','' # a4 # CHR '',''
             # a5 # CHR '','' # a6 # rest) =
        Some [[m], [a1], [a2], [a3], [a4], [a5], [a6]]"
    by (simp only: class_fields_step [OF assms(1)] class_fields_step [OF assms(2)]
        class_fields_step [OF assms(3)] class_fields_step [OF assms(4)]
        class_fields_step [OF assms(5)] class_fields_step [OF assms(6)]
        class_fields_last [OF assms(7)] option.map)
  then show ?thesis
    by (simp add: gpsnmun_regex_def prefixed_fields_def)
qed

lemma match_data_Line:
  assumes "data r = Some (Line l)"
  shows "match_data rx (Some r) = Inr (rx l)"
  by (simp add: match_data_def get_data_def re_match_def bindE_Inr assms)

lemma decode_nmea_config_fields:
  assumes "match_data gpsnmun_regex ro = Inr (Some [[m], [a1], [a2], [a3], [a4], [a5], [a6]])"
    and "bindE (py_int [m]) (dict_item NMEA_MODE_MAP) = Inr md"
    and "py_bool_int [a1] = Inr b1" and "py_bool_int [a2] = Inr b2"
    and "py_bool_int [a3] = Inr b3" and "py_bool_int [a4] = Inr b4"
    and "py_bool_int [a5] = Inr b5" and "py_bool_int [a6] = Inr b6"
  shows "decode_nmea_config ro =
           Inr \<lparr>nmea_mode = md, gga = b1, gll = b2, gsa = b3, gsv = b4, rmc = b5, vtg = b6\<rparr>"
  unfolding decode_nmea_config_def
  by (simp add: assms bindE_Inr)

lemma decode_nmea_config_flags:
  assumes "data r = Some (Line (''$GPSNMUN: '' @ [m, CHR '','', a1, CHR '','', a2, CHR '','', a3,
            CHR '','', a4, CHR '','', a5, CHR '','', a6] @ rest))"
    and "m \<in> set ''0123''" and "a1 \<in> set ''01''" and "a2 \<in> set ''01''"
    and "a3 \<in> set ''01''" and "a4 \<in> set ''01''" and "a5 \<in> set ''01''" and "a6 \<in> set ''01''"
  shows "\<exists>md. decode_nmea_config (Some r) =
           Inr \<lparr>nmea_mode = md, gga = (a1 = CHR ''1''), gll = (a2 = CHR ''1''),
                gsa = (a3 = CHR ''1''), gsv = (a4 = CHR ''1''), rmc = (a5 = CHR ''1''),
                vtg = (a6 = CHR ''1'')\<rparr>"
proof -
  from nmea_mode_digit [OF assms(2)] obtain md where
    md: "bindE (py_int [m]) (dict_item NMEA_MODE_MAP) = Inr md" ..
  have g: "gpsnmun_regex (''$GPSNMUN: '' @ [m, CHR '','', a1, CHR '','', a2, CHR '','', a3,
            CHR '','', a4, CHR '','', a5, CHR '','', a6] @ rest) =
         Some [[m], [a1], [a2], [a3], [a4], [a5], [a6]]"
    using assms(2-8) by (rule gpsnmun_regex_fields)
  have mt: "match_data gpsnmun_regex (Some r) =
      Inr (Some [[m], [a1], [a2], [a3], [a4], [a5], [a6]])"
    using match_data_Line [OF assms(1), of gpsnmun_regex] g by (simp only:)
  have b1: "py_bool_int [a1] = Inr (a1 = CHR ''1'')" using assms(3) by (rule py_bool_int_bit)
  have b2: "py_bool_int [a2] = Inr (a2 = CHR ''1'')" using assms(4) by (rule py_bool_int_bit)
  have b3: "py_bool_int [a3] = Inr (a3 = CHR ''1'')" using assms(5) by (rule py_bool_int_bit)
  have b4: "py_bool_int [a4] = Inr (a4 = CHR ''1'')" using assms(6) by (rule py_bool_int_bit)
  have b5: "py_bool_int [a5] = Inr (a5 = CHR ''1'')" using assms(7) by (rule py_bool_int_bit)
  have b6: "py_bool_int [a6] = Inr (a6 = CHR ''1'')" using assms(8) by (rule py_bool_int_bit)
  have "decode_nmea_config (Some r) =
           Inr \<lparr>nmea_mode = md, gga = (a1 = CHR ''1''), gll = (a2 = CHR ''1''),
                gsa = (a3 = CHR ''1''), gsv = (a4 = CHR ''1''), rmc = (a5 = CHR ''1''),
                vtg = (a6 = CHR ''1'')\<rparr>"
    using mt md b1 b2 b3 b4 b5 b6 by (rule decode_nmea_config_fields)
  then show ?thesis by (rule exI [where x = md])
qed

lemma decode_gnss_session_flag:
  assumes "data q = Some (Line (''$GPSP: '' @ s # rest))" and "s \<in> set ''01''"
  shows "decode_gnss_session (Some q) = Inr (s = CHR ''1'')"
proof -
  have "gpsp_regex (''$GPSP: '' @ s # rest) = Some [[s]]"
    using class_fields_last [OF assms(2), of rest]
    by (simp add: gpsp_regex_def prefixed_fields_def)
  then have "match_data gpsp_regex (Some q) = Inr (Some [[s]])"
    unfolding match_data_Line [OF assms(1)] by simp
  then show ?thesis
    by (simp add: decode_gnss_session_def py_bool_int_bit [OF assms(2)] bindE_Inr)
qed

text \<open>
  C9. Every flag of a decoded NMEA configuration, and the decoded GNSS session status, is
  \<^verbatim>\<open>bool(int(field))\<close>: the text \<^verbatim>\<open>0\<close> gives false and \<^verbatim>\<open>1\<close> gives
  true. For every transport and every response line of the expected shape, each flag that
  \<^verbatim>\<open>gnss_nmea_data_config\<close> returns is true exactly when its field is the digit 1, and
  so is the status that \<^verbatim>\<open>gnss_session\<close> returns.
\<close>

theorem flags_decoded_as_int_then_bool:
  "py_bool_int ''0'' = Inr False \<and> py_bool_int ''1'' = Inr True
   \<and> (execute_default ops ''AT$GPSNMUN?'' c = (Inr (Some r), c')
        \<and> data r = Some (Line (''$GPSNMUN: '' @ [m, CHR '','', a1, CHR '','', a2, CHR '','', a3,
              CHR '','', a4, CHR '','', a5, CHR '','', a6] @ rest))
        \<and> m \<in> set ''0123'' \<and> a1 \<in> set ''01'' \<and> a2 \<in> set ''01'' \<and> a3 \<in> set ''01''
        \<and> a4 \<in> set ''01'' \<and> a5 \<in> set ''01'' \<and> a6 \<in> set ''01'' \<longrightarrow>
      (\<exists>md. gnss_nmea_data_config ops None g1 g2 g3 g4 g5 g6 force c =
         (Inr \<lparr>nmea_mode = md, gga = (a1 = CHR ''1''), gll = (a2 = CHR ''1''),
               gsa = (a3 = CHR ''1''), gsv = (a4 = CHR ''1''), rmc = (a5 = CHR ''1''),
               vtg = (a6 = CHR ''1'')\<rparr>, c')))
   \<and> (execute_default ops ''AT$GPSP?'' d = (Inr (Some q), d')
        \<and> data q = Some (Line (''$GPSP: '' @ s # rest')) \<and> s \<in> set ''01'' \<longrightarrow>
      gnss_session ops None force' d = (Inr (s = CHR ''1''), d'))"
proof (intro conjI impI)
  show "py_bool_int ''0'' = Inr False" by code_simp
  show "py_bool_int ''1'' = Inr True" by code_simp
next
  assume a: "execute_default ops ''AT$GPSNMUN?'' c = (Inr (Some r), c')
        \<and> data r = Some (Line (''$GPSNMUN: '' @ [m, CHR '','', a1, CHR '','', a2, CHR '','', a3,
              CHR '','', a4, CHR '','', a5, CHR '','', a6] @ rest))
        \<and> m \<in> set ''0123'' \<and> a1 \<in> set ''01'' \<and> a2 \<in> set ''01'' \<and> a3 \<in> set ''01''
        \<and> a4 \<in> set ''01'' \<and> a5 \<in> set ''01'' \<and> a6 \<in> set ''01''"
  then have e: "execute_default ops ''AT$GPSNMUN?'' c = (Inr (Some r), c')" by blast
  from a obtain md where "decode_nmea_config (Some r) =
           Inr \<lparr>nmea_mode = md, gga = (a1 = CHR ''1''), gll = (a2 = CHR ''1''),
                gsa = (a3 = CHR ''1''), gsv = (a4 = CHR ''1''), rmc = (a5 = CHR ''1''),
                vtg = (a6 = CHR ''1'')\<rparr>"
    using decode_nmea_config_flags [of r m a1 a2 a3 a4 a5 a6 rest] by blast
  then have "gnss_nmea_data_config ops None g1 g2 g3 g4 g5 g6 force c =
         (Inr \<lparr>nmea_mode = md, gga = (a1 = CHR ''1''), gll = (a2 = CHR ''1''),
               gsa = (a3 = CHR ''1''), gsv = (a4 = CHR ''1''), rmc = (a5 = CHR ''1''),
               vtg = (a6 = CHR ''1'')\<rparr>, c')"
    by (simp add: gnss_nmea_data_config_def bind_def e lift_def ok_def)
  then show "\<exists>md. gnss_nmea_data_config ops None g1 g2 g3 g4 g5 g6 force c =
         (Inr \<lparr>nmea_mode = md, gga = (a1 = CHR ''1''), gll = (a2 = CHR ''1''),
               gsa = (a3 = CHR ''1''), gsv = (a4 = CHR ''1''), rmc = (a5 = CHR ''1''),
               vtg = (a6 = CHR ''1'')\<rparr>, c')"
    by (rule exI [where x = md])
next
  assume a: "execute_default ops ''AT$GPSP?'' d = (Inr (Some q), d')
        \<and> data q = Some (Line (''$GPSP: '' @ s # rest')) \<and> s \<in> set ''01''"
  then have e: "execute_default ops ''AT$GPSP?'' d = (Inr (Some q), d')" by blast
  from a have "decode_gnss_session (Some q) = Inr (s = CHR ''1'')"
    using decode_gnss_session_flag [of q s rest'] by blast
  then show "gnss_session ops None force' d = (Inr (s = CHR ''1''), d')"
    by (simp add: gnss_session_def bind_def e lift_def ok_def)
qed

theorem flags_decoded_as_int_then_bool_witness:
  "(\<exists>md. gnss_nmea_data_config stub None True True True True True True False
       (modem [''$GPSNMUN: 2,0,1,0,1,0,1'', ''OK'']) =
      (Inr \<lparr>nmea_mode = md, gga = False, gll = True, gsa = False, gsv = True, rmc = False,
            vtg = True\<rparr>,
       \<lparr>trace = [WriteLine ''AT$GPSNMUN?'', ReadUntil ''OK'' None], dev = []\<rparr>))
   \<and> gnss_session stub None False (modem [''$GPSP: 0'', ''OK'']) =
      (Inr False, \<lparr>trace = [WriteLine ''AT$GPSP?'', ReadUntil ''OK'' None], dev = []\<rparr>)"
proof -
  let ?ra = "\<lparr>error = None, data = Some (Line ''$GPSNMUN: 2,0,1,0,1,0,1'')\<rparr>"
  let ?ca = "\<lparr>trace = [WriteLine ''AT$GPSNMUN?'', ReadUntil ''OK'' None], dev = []\<rparr>
               :: string list conn"
  let ?rb = "\<lparr>error = None, data = Some (Line ''$GPSP: 0'')\<rparr>"
  let ?cb = "\<lparr>trace = [WriteLine ''AT$GPSP?'', ReadUntil ''OK'' None], dev = []\<rparr>
               :: string list conn"
  have h1: "execute_default stub ''AT$GPSNMUN?'' (modem [''$GPSNMUN: 2,0,1,0,1,0,1'', ''OK'']) =
      (Inr (Some ?ra), ?ca)"
    by code_simp
  have h2: "execute_default stub ''AT$GPSP?'' (modem [''$GPSP: 0'', ''OK'']) =
      (Inr (Some ?rb), ?cb)"
    by code_simp
  show ?thesis
    using flags_decoded_as_int_then_bool [of stub
        "modem [''$GPSNMUN: 2,0,1,0,1,0,1'', ''OK'']" ?ra ?ca
        "CHR ''2''" "CHR ''0''" "CHR ''1''" "CHR ''0''" "CHR ''1''" "CHR ''0''" "CHR ''1''" "[]"
        True True True True True True False
        "modem [''$GPSP: 0'', ''OK'']" ?rb ?cb "CHR ''0''" "[]" False]
      h1 h2
    by simp
qed

end
